theory Spec2Isabelle
  imports Main
begin

section \<open>JavaScript values used by the pages\<close>

text \<open>
  A value of TypeScript type \<open>string | null\<close> is a \<open>string option\<close>. JavaScript treats
  \<open>null\<close>, \<open>undefined\<close> and the empty string as falsy; every other string is truthy.
  A plain \<open>string\<close> is truthy exactly when it is not empty.
\<close>

fun truthy :: "string option \<Rightarrow> bool" where
  "truthy None = False"
| "truthy (Some s) = (s \<noteq> [])"

text \<open>\<open>a || b\<close> on an optional string and a string.\<close>

fun or_else :: "string option \<Rightarrow> string \<Rightarrow> string" where
  "or_else None d = d"
| "or_else (Some s) d = (if s \<noteq> [] then s else d)"

text \<open>
  The error an HTTP request rejects with. The pages read it only through
  \<open>err.response?.data?.message\<close>, so it is modelled as that chain of optional fields.
\<close>

record error_data =
  message :: "string option"

record error_response =
  response_data :: "error_data option"

record request_error =
  response :: "error_response option"

text \<open>\<open>err.response?.data?.message\<close>\<close>

definition response_data_message :: "request_error \<Rightarrow> string option" where
  "response_data_message err =
     (case response err of
        None \<Rightarrow> None
      | Some r \<Rightarrow> (case response_data r of None \<Rightarrow> None | Some d \<Rightarrow> message d))"

subsection \<open>Effects of a handler\<close>

text \<open>
  A handler returns the page state it leaves behind together with the effects it
  performed, in order: the HTTP requests it issued, calls of \<open>navigate\<close>,
  \<open>window.confirm\<close> and \<open>console.error\<close>. What the environment answers (the result of
  a request, the answer to the confirmation prompt) is an argument of the handler.
\<close>

datatype param_value = PNum int | PStr string

datatype 'f form_value = FText string | FFile 'f

datatype 'f effect =
    HttpGet string "(string \<times> param_value) list"
  | HttpPost string "(string \<times> 'f form_value) list" "(string \<times> string) list"
  | HttpDelete string
  | NavigateTo string
  | WindowConfirm string
  | ConsoleError request_error

text \<open>Which effects are DELETE requests, and which are navigations.\<close>

fun is_delete :: "'f effect \<Rightarrow> bool" where
  "is_delete (HttpDelete url) = True"
| "is_delete e = False"

fun is_navigation :: "'f effect \<Rightarrow> bool" where
  "is_navigation (NavigateTo path) = True"
| "is_navigation e = False"

section \<open>Dashboard page\<close>

text \<open>
  The state variables of \<open>Dashboard\<close>, under the names of the source. The products are
  kept opaque (\<open>'p\<close>): the handlers below only store them.
\<close>

record 'p dashboard_state =
  products :: "'p list"
  loading :: bool
  error :: string
  search :: string
  category :: string
  sortBy :: string
  sortOrder :: string
  minPrice :: string
  maxPrice :: string
  currentPage :: int
  lastPage :: int
  total :: int

text \<open>\<open>ProductsResponse\<close>; the \<open>links\<close> object is never read and is left out.\<close>

record 'p products_response =
  r_data :: "'p list"
  r_current_page :: int
  r_last_page :: int
  r_per_page :: int
  r_total :: int

text \<open>
  The \<open>params\<close> object built by \<open>fetchProducts\<close>, as the list of its keys in insertion
  order. A key is added only under its \<open>if\<close>.
\<close>

definition fetch_params :: "'p dashboard_state \<Rightarrow> (string \<times> param_value) list" where
  "fetch_params st =
     [(''page'', PNum (currentPage st)), (''per_page'', PNum 12)]
     @ (if search st \<noteq> [] then [(''search'', PStr (search st))] else [])
     @ (if category st \<noteq> [] then [(''category'', PStr (category st))] else [])
     @ (if sortBy st \<noteq> [] then [(''sort_by'', PStr (sortBy st))] else [])
     @ (if sortOrder st \<noteq> [] then [(''sort_order'', PStr (sortOrder st))] else [])
     @ (if minPrice st \<noteq> [] then [(''min_price'', PStr (minPrice st))] else [])
     @ (if maxPrice st \<noteq> [] then [(''max_price'', PStr (maxPrice st))] else [])"

text \<open>
  \<open>fetchProducts\<close>: \<open>result\<close> is what the awaited GET gives, \<open>Inl\<close> when it rejects.
  The \<open>finally\<close> block runs on both paths.
\<close>

definition fetchProducts ::
  "request_error + 'p products_response \<Rightarrow> 'p dashboard_state
     \<Rightarrow> 'p dashboard_state \<times> 'f effect list" where
  "fetchProducts result st =
     (let st1 = st\<lparr>loading := True, error := []\<rparr>;
          req = HttpGet ''http://localhost:8000/api/products'' (fetch_params st)
      in case result of
           Inr resp \<Rightarrow>
             (st1\<lparr>products := r_data resp,
                  currentPage := r_current_page resp,
                  lastPage := r_last_page resp,
                  total := r_total resp,
                  loading := False\<rparr>,
              [req])
         | Inl err \<Rightarrow>
             (st1\<lparr>error := ''Failed to fetch products'', loading := False\<rparr>,
              [req, ConsoleError err]))"

definition handleSearchChange :: "string \<Rightarrow> 'p dashboard_state \<Rightarrow> 'p dashboard_state" where
  "handleSearchChange v st = st\<lparr>search := v, currentPage := 1\<rparr>"

definition handleCategoryChange :: "string \<Rightarrow> 'p dashboard_state \<Rightarrow> 'p dashboard_state" where
  "handleCategoryChange v st = st\<lparr>category := v, currentPage := 1\<rparr>"

definition handleSortChange :: "string \<Rightarrow> 'p dashboard_state \<Rightarrow> 'p dashboard_state" where
  "handleSortChange v st = st\<lparr>sortBy := v, currentPage := 1\<rparr>"

definition handleSortOrderChange :: "string \<Rightarrow> 'p dashboard_state \<Rightarrow> 'p dashboard_state" where
  "handleSortOrderChange v st = st\<lparr>sortOrder := v, currentPage := 1\<rparr>"

definition handleMinPriceChange :: "string \<Rightarrow> 'p dashboard_state \<Rightarrow> 'p dashboard_state" where
  "handleMinPriceChange v st = st\<lparr>minPrice := v, currentPage := 1\<rparr>"

definition handleMaxPriceChange :: "string \<Rightarrow> 'p dashboard_state \<Rightarrow> 'p dashboard_state" where
  "handleMaxPriceChange v st = st\<lparr>maxPrice := v, currentPage := 1\<rparr>"

text \<open>
  The pagination block of the rendered page: absent while \<open>loading\<close> (the whole list
  part is replaced by the loading line) and when \<open>lastPage > 1\<close> fails. It records
  whether each button is disabled and the two numbers of the label; what a click on a
  button sets (\<open>currentPage - 1\<close>, \<open>currentPage + 1\<close> in floating point) is left out.
\<close>

record pagination_view =
  previous_disabled :: bool
  page_label :: "int \<times> int"
  next_disabled :: bool

definition pagination :: "'p dashboard_state \<Rightarrow> pagination_view option" where
  "pagination st =
     (if loading st then None
      else if lastPage st > 1 then
        Some \<lparr>previous_disabled = (currentPage st = 1),
              page_label = (currentPage st, lastPage st),
              next_disabled = (currentPage st = lastPage st)\<rparr>
      else None)"

text \<open>\<open>{error && <div className="error-message">{error}</div>}\<close>, outside the loading test.\<close>

definition error_message :: "'p dashboard_state \<Rightarrow> string option" where
  "error_message st = (if error st \<noteq> [] then Some (error st) else None)"

section \<open>Route guard and routing table\<close>

text \<open>
  What \<open>useAuth()\<close> hands to \<open>ProtectedRoute\<close>. The provider is a module of its own
  (\<open>contexts/AuthContext\<close>); the two values read from it are an argument here.
\<close>

record auth =
  token :: "string option"
  isLoading :: bool

text \<open>
  React elements, as far as the routing table and the guard build them. The three pages
  are opaque leaves; \<open>ProtectedRouteEl c\<close> is \<open><ProtectedRoute>c</ProtectedRoute>\<close>,
  \<open>Navigate to replace\<close> is \<open><Navigate to=... replace />\<close>, \<open>Div cls txt\<close> is
  \<open><div className=cls>txt</div>\<close> and \<open>Fragment c\<close> is \<open><>{c}</>\<close>.
\<close>

datatype element =
    Login
  | Dashboard
  | ProductDetail
  | ProtectedRouteEl element
  | Navigate string bool
  | Div string string
  | Fragment element

definition ProtectedRoute :: "auth \<Rightarrow> element \<Rightarrow> element" where
  "ProtectedRoute a children =
     (if isLoading a then Div ''loading'' ''Loading...''
      else if \<not> truthy (token a) then Navigate ''/login'' True
      else Fragment children)"

definition routes :: "(string \<times> element) list" where
  "routes =
     [(''/login'', Login),
      (''/dashboard'', ProtectedRouteEl Dashboard),
      (''/products/:id'', ProtectedRouteEl ProductDetail),
      (''/'', Navigate ''/dashboard'' True)]"

text \<open>
  Mounting an element calls the guard where the element is one; every other element is
  handed to the library as it is.
\<close>

fun mount :: "auth \<Rightarrow> element \<Rightarrow> element" where
  "mount a (ProtectedRouteEl children) = ProtectedRoute a children"
| "mount a e = e"

text \<open>
  \<open>App\<close> registers each entry of \<open>routes\<close> as a \<open>Route\<close>; the router picks the entry
  whose \<open>path\<close> pattern matches the location (its matching is the library's) and mounts
  that entry's element. \<open>route_view a pattern\<close> is what is mounted for the entry with
  that pattern.
\<close>

definition route_view :: "auth \<Rightarrow> string \<Rightarrow> element option" where
  "route_view a pattern = map_option (mount a) (map_of routes pattern)"

section \<open>Product detail page\<close>

subsection \<open>Image URL\<close>

text \<open>
  \<open>String.prototype.replace\<close> with a string pattern: the first occurrence of the pattern,
  scanning from the left, is replaced; a string without the pattern is returned as it is.
  (The replacement used below is the empty string, so no \<open>$\<close> pattern of the replacement
  plays a part.)
\<close>

fun replace_first :: "string \<Rightarrow> string \<Rightarrow> string \<Rightarrow> string" where
  "replace_first pat rep [] = (if pat = [] then rep else [])"
| "replace_first pat rep (c # cs) =
     (if take (length pat) (c # cs) = pat then rep @ drop (length pat) (c # cs)
      else c # replace_first pat rep cs)"

text \<open>
  \<open>import.meta.env.VITE_API_BASE_URL?.replace('/api', '') || 'http://localhost:8000'\<close>;
  the environment variable is \<open>None\<close> when it is not set.
\<close>

definition storage_base_url :: "string option \<Rightarrow> string" where
  "storage_base_url VITE_API_BASE_URL =
     or_else (map_option (replace_first ''/api'' []) VITE_API_BASE_URL) ''http://localhost:8000''"

text \<open>\<open>getImageUrl\<close> of \<open>ProductDetail\<close>; its first argument is the environment variable.\<close>

definition getImageUrl :: "string option \<Rightarrow> string option \<Rightarrow> string option \<Rightarrow> string" where
  "getImageUrl VITE_API_BASE_URL imageUrl imagePath =
     (let from_path =
            (case imagePath of
               None \<Rightarrow> ''https://via.placeholder.com/600x400?text=No+Image''
             | Some p \<Rightarrow>
                 if p = [] then ''https://via.placeholder.com/600x400?text=No+Image''
                 else storage_base_url VITE_API_BASE_URL @ ''/storage/'' @ p)
      in case imageUrl of
           None \<Rightarrow> from_path
         | Some u \<Rightarrow> if u \<noteq> [] then u else from_path)"

text \<open>\<open>getImageUrl\<close> of \<open>Dashboard\<close>, which resolves a stored path against a fixed origin.\<close>

definition getImageUrl_dashboard :: "string option \<Rightarrow> string" where
  "getImageUrl_dashboard img =
     (case img of
        None \<Rightarrow> ''https://via.placeholder.com/300x200?text=No+Image''
      | Some p \<Rightarrow>
          if p = [] then ''https://via.placeholder.com/300x200?text=No+Image''
          else ''http://localhost:8000/storage/'' @ p)"

text \<open>
  The image rule in the words of the specification, for comparison: the image URL field
  when present; else, when a stored path exists, the configured API base URL with a
  trailing \<open>/api\<close> suffix stripped, then \<open>/storage/\<close> and the path; else the placeholder.
\<close>

definition strip_api_suffix :: "string \<Rightarrow> string" where
  "strip_api_suffix base =
     (if 4 \<le> length base \<and> drop (length base - 4) base = ''/api''
      then take (length base - 4) base else base)"

definition getImageUrl_spec :: "string \<Rightarrow> string option \<Rightarrow> string option \<Rightarrow> string" where
  "getImageUrl_spec api_base imageUrl imagePath =
     (if truthy imageUrl then or_else imageUrl []
      else if truthy imagePath then strip_api_suffix api_base @ ''/storage/'' @ or_else imagePath []
      else ''https://via.placeholder.com/600x400?text=No+Image'')"

subsection \<open>State and handlers\<close>

text \<open>
  \<open>Product\<close> of the detail page. Field names carry the prefix \<open>p_\<close> (the draft's carry
  \<open>f_\<close>, and the page's \<open>loading\<close> and \<open>error\<close> carry \<open>pd_\<close>) to keep them apart from the
  Dashboard's state variables of the same name. Numbers are kept opaque (\<open>'n\<close>); the
  only operation on them, \<open>toString\<close>, is an argument. \<open>price\<close> and \<open>rating\<close> are read
  with \<open>?.\<close>, so they may be absent.
\<close>

record 'n product =
  p_id :: 'n
  p_name :: string
  p_category :: string
  p_price :: "'n option"
  p_rating :: "'n option"
  p_image :: "string option"
  p_image_url :: "string option"
  p_description :: string
  p_created_at :: string
  p_updated_at :: string

record form_data =
  f_name :: string
  f_category :: string
  f_price :: string
  f_rating :: string
  f_description :: string

record ('n, 'f) detail_state =
  product :: "'n product option"
  pd_loading :: bool
  pd_error :: string
  isEditing :: bool
  formData :: form_data
  imageFile :: "'f option"
  imagePreview :: "string option"

text \<open>
  A response body carrying a product: wrapped as \<open>{ data: product }\<close> or the product
  itself. \<open>response.data.data || response.data\<close> yields the product in both shapes: an
  object under \<open>data\<close> is truthy, and a bare product has no \<open>data\<close> field.
\<close>

datatype 'n response_body = Wrapped "'n product" | Unwrapped "'n product"

fun unwrap :: "'n response_body \<Rightarrow> 'n product" where
  "unwrap (Wrapped p) = p"
| "unwrap (Unwrapped p) = p"

text \<open>\<open>s || d\<close> on a plain string.\<close>

definition or_str :: "string \<Rightarrow> string \<Rightarrow> string" where
  "or_str s d = (if s \<noteq> [] then s else d)"

text \<open>
  \<open>fetchProduct\<close>; \<open>pid\<close> is the \<open>id\<close> path parameter and \<open>result\<close> what the awaited GET
  gives. It catches the failure itself, so it never rejects.
\<close>

definition fetchProduct ::
  "('n \<Rightarrow> string) \<Rightarrow> string \<Rightarrow> request_error + 'n response_body
     \<Rightarrow> ('n, 'f) detail_state \<Rightarrow> ('n, 'f) detail_state \<times> 'f effect list" where
  "fetchProduct toString pid result st =
     (let st1 = st\<lparr>pd_loading := True, pd_error := []\<rparr>;
          req = HttpGet (''/products/'' @ pid) []
      in case result of
           Inr body \<Rightarrow>
             (let productData = unwrap body
              in (st1\<lparr>product := Some productData,
                      formData :=
                        \<lparr>f_name = or_str (p_name productData) [],
                         f_category = or_str (p_category productData) [],
                         f_price = or_else (map_option toString (p_price productData)) ''0'',
                         f_rating = or_else (map_option toString (p_rating productData)) ''0'',
                         f_description = or_str (p_description productData) []\<rparr>,
                      pd_loading := False\<rparr>,
                  [req]))
         | Inl err \<Rightarrow>
             (st1\<lparr>pd_error := ''Failed to fetch product'', pd_loading := False\<rparr>,
              [req, ConsoleError err]))"

text \<open>The multipart POST that \<open>handleUpdate\<close> sends, built from the draft and the chosen file.\<close>

definition update_request :: "string \<Rightarrow> ('n, 'f) detail_state \<Rightarrow> 'f effect" where
  "update_request pid st =
     HttpPost (''/products/'' @ pid)
       ([(''name'', FText (f_name (formData st))),
         (''category'', FText (f_category (formData st))),
         (''price'', FText (f_price (formData st))),
         (''rating'', FText (f_rating (formData st))),
         (''description'', FText (f_description (formData st)))]
        @ (case imageFile st of Some file \<Rightarrow> [(''image'', FFile file)] | None \<Rightarrow> [])
        @ [(''_method'', FText ''PUT'')])
       [(''Content-Type'', ''multipart/form-data'')]"

text \<open>
  The state \<open>handleUpdate\<close> has set when the POST has resolved and it reaches
  \<open>await fetchProduct()\<close>: \<open>setError('')\<close>, \<open>setProduct(updatedProduct)\<close>,
  \<open>setIsEditing(false)\<close>, \<open>setImageFile(null)\<close>, \<open>setImagePreview(null)\<close>.
\<close>

definition update_succeeded ::
  "'n response_body \<Rightarrow> ('n, 'f) detail_state \<Rightarrow> ('n, 'f) detail_state" where
  "update_succeeded body st =
     st\<lparr>pd_error := [], product := Some (unwrap body), isEditing := False,
        imageFile := None, imagePreview := None\<rparr>"

text \<open>
  \<open>handleUpdate\<close>; \<open>post_result\<close> is what the awaited POST gives and \<open>get_result\<close> what
  the GET of the re-fetch gives (read only when the POST resolved).
\<close>

definition handleUpdate ::
  "('n \<Rightarrow> string) \<Rightarrow> string \<Rightarrow> request_error + 'n response_body
     \<Rightarrow> request_error + 'n response_body
     \<Rightarrow> ('n, 'f) detail_state \<Rightarrow> ('n, 'f) detail_state \<times> 'f effect list" where
  "handleUpdate toString pid post_result get_result st =
     (case post_result of
        Inr body \<Rightarrow>
          (case fetchProduct toString pid get_result (update_succeeded body st) of
             (st', effects) \<Rightarrow> (st', update_request pid st # effects))
      | Inl err \<Rightarrow>
          (st\<lparr>pd_error := or_else (response_data_message err) ''Failed to update product''\<rparr>,
           [update_request pid st, ConsoleError err]))"

text \<open>
  \<open>handleDelete\<close>; \<open>confirmed\<close> is the answer of \<open>window.confirm\<close> and \<open>result\<close> what the
  awaited DELETE gives (read only when confirmed).
\<close>

definition handleDelete ::
  "string \<Rightarrow> bool \<Rightarrow> request_error + unit
     \<Rightarrow> ('n, 'f) detail_state \<Rightarrow> ('n, 'f) detail_state \<times> 'f effect list" where
  "handleDelete pid confirmed result st =
     (if \<not> confirmed then
        (st, [WindowConfirm ''Are you sure you want to delete this product?''])
      else
        (case result of
           Inr u \<Rightarrow>
             (st, [WindowConfirm ''Are you sure you want to delete this product?'',
                   HttpDelete (''/products/'' @ pid),
                   NavigateTo ''/dashboard''])
         | Inl err \<Rightarrow>
             (st\<lparr>pd_error := ''Failed to delete product''\<rparr>,
              [WindowConfirm ''Are you sure you want to delete this product?'',
               HttpDelete (''/products/'' @ pid),
               ConsoleError err])))"

text \<open>
  The handlers around the file input of the edit form. \<open>handleImageChange\<close> stores the
  chosen file at once and starts a \<open>FileReader\<close>; the preview is set only later, when the
  reader calls \<open>onloadend\<close> with its result. Nothing cancels a reader that is under way.
  The Edit button sets \<open>isEditing\<close>; the Cancel button clears it together with the file
  and the preview.
\<close>

definition handleImageChange ::
  "'f option \<Rightarrow> ('n, 'f) detail_state \<Rightarrow> ('n, 'f) detail_state" where
  "handleImageChange file st =
     (case file of None \<Rightarrow> st | Some f \<Rightarrow> st\<lparr>imageFile := Some f\<rparr>)"

definition reader_onloadend ::
  "string option \<Rightarrow> ('n, 'f) detail_state \<Rightarrow> ('n, 'f) detail_state" where
  "reader_onloadend reader_result st = st\<lparr>imagePreview := reader_result\<rparr>"

definition edit_clicked :: "('n, 'f) detail_state \<Rightarrow> ('n, 'f) detail_state" where
  "edit_clicked st = st\<lparr>isEditing := True\<rparr>"

definition cancel_clicked :: "('n, 'f) detail_state \<Rightarrow> ('n, 'f) detail_state" where
  "cancel_clicked st = st\<lparr>isEditing := False, imageFile := None, imagePreview := None\<rparr>"

subsection \<open>Rendering\<close>

text \<open>
  What \<open>ProductDetail\<close> renders, as far as the properties below need it: the loading
  line, the not-found line, or the page with its action buttons (Edit and Delete, shown
  outside edit mode), its error banner and either the image of the view mode or the
  optional preview image of the edit form.
\<close>

datatype page_body = ViewMode string | EditMode "string option"

record page_parts =
  action_buttons :: bool
  error_banner :: "string option"
  page_body :: page_body

datatype detail_view = LoadingView | NotFoundView | PageView page_parts

text \<open>
  \<open>{(imagePreview || product.image) && (<img src={imagePreview || getImageUrl(...)} />)}\<close>
\<close>

definition edit_preview ::
  "string option \<Rightarrow> ('n, 'f) detail_state \<Rightarrow> 'n product \<Rightarrow> string option" where
  "edit_preview env st p =
     (if truthy (imagePreview st) \<or> truthy (p_image p)
      then Some (or_else (imagePreview st) (getImageUrl env (p_image_url p) (p_image p)))
      else None)"

definition render :: "string option \<Rightarrow> ('n, 'f) detail_state \<Rightarrow> detail_view" where
  "render env st =
     (if pd_loading st then LoadingView
      else case product st of
        None \<Rightarrow> NotFoundView
      | Some p \<Rightarrow>
          PageView
            \<lparr>action_buttons = (\<not> isEditing st),
             error_banner = (if pd_error st \<noteq> [] then Some (pd_error st) else None),
             page_body =
               (if \<not> isEditing st then ViewMode (getImageUrl env (p_image_url p) (p_image p))
                else EditMode (edit_preview env st p))\<rparr>)"

section \<open>Sample states\<close>

text \<open>Concrete states at which the conditional properties below are instantiated.\<close>

definition sample_dashboard :: "unit dashboard_state" where
  "sample_dashboard =
     \<lparr>products = [(), ()], loading = False, error = [], search = ''lamp'', category = [],
      sortBy = ''created_at'', sortOrder = ''desc'', minPrice = [], maxPrice = ''50'',
      currentPage = 1, lastPage = 3, total = 26\<rparr>"

definition sample_product :: "string product" where
  "sample_product =
     \<lparr>p_id = ''7'', p_name = ''Desk lamp'', p_category = ''Electronics'',
      p_price = Some ''19.5'', p_rating = Some ''4'', p_image = None,
      p_image_url = Some ''https://x/y.png'', p_description = ''A lamp'',
      p_created_at = ''2024-01-01T00:00:00Z'', p_updated_at = ''2024-01-02T00:00:00Z''\<rparr>"

definition sample_editing :: "(string, unit) detail_state" where
  "sample_editing =
     \<lparr>product = Some sample_product, pd_loading = False, pd_error = [], isEditing = True,
      formData = \<lparr>f_name = ''Desk lamp'', f_category = ''Electronics'', f_price = ''19.5'',
                  f_rating = ''4'', f_description = ''A lamp''\<rparr>,
      imageFile = None, imagePreview = None\<rparr>"

definition sample_viewing :: "(string, unit) detail_state" where
  "sample_viewing = sample_editing\<lparr>isEditing := False\<rparr>"

definition sample_error :: request_error where
  "sample_error =
     \<lparr>response = Some \<lparr>response_data = Some \<lparr>message = Some ''The name field is required.''\<rparr>\<rparr>\<rparr>"

text \<open>
  A file is chosen in the edit form, Cancel is pressed before the reader has finished,
  the reader then delivers its data URL, and Edit is pressed again.
\<close>

definition sample_stale_preview :: "(string, unit) detail_state" where
  "sample_stale_preview =
     edit_clicked
       (reader_onloadend (Some ''data:image/png;base64,iVBORw0KGgo='')
          (cancel_clicked (handleImageChange (Some ()) sample_editing)))"

section \<open>Route guard\<close>

text \<open>
  C1. For the two guarded entries of the routing table, \<open>/dashboard\<close> and
  \<open>/products/:id\<close>, what is mounted is: only the loading placeholder while the
  authentication context is loading; once loading is over, a redirect to \<open>/login\<close> that
  replaces the history entry when the token is absent (\<open>null\<close> or empty), and the wrapped
  page, unchanged inside a fragment, when a token is present. These two are the only
  entries the table wraps in the guard.
\<close>

theorem guarded_routes:
  "route_view a ''/dashboard'' =
     Some (if isLoading a then Div ''loading'' ''Loading...''
           else if truthy (token a) then Fragment Dashboard
           else Navigate ''/login'' True)
   \<and> route_view a ''/products/:id'' =
     Some (if isLoading a then Div ''loading'' ''Loading...''
           else if truthy (token a) then Fragment ProductDetail
           else Navigate ''/login'' True)
   \<and> [p \<leftarrow> map fst routes. \<exists>c. map_of routes p = Some (ProtectedRouteEl c)]
        = [''/dashboard'', ''/products/:id'']"
  by (simp add: route_view_def routes_def ProtectedRoute_def)

section \<open>Dashboard\<close>

text \<open>
  C6. Whatever the page number was, each of the six change handlers (search text,
  category, sort field, sort order, minimum price, maximum price) stores the new value
  and leaves the current page at 1; the request built from the new state asks for
  page 1.
\<close>

theorem filter_change_resets_page:
  "currentPage (handleSearchChange v st) = 1
   \<and> currentPage (handleCategoryChange v st) = 1
   \<and> currentPage (handleSortChange v st) = 1
   \<and> currentPage (handleSortOrderChange v st) = 1
   \<and> currentPage (handleMinPriceChange v st) = 1
   \<and> currentPage (handleMaxPriceChange v st) = 1
   \<and> search (handleSearchChange v st) = v
   \<and> category (handleCategoryChange v st) = v
   \<and> sortBy (handleSortChange v st) = v
   \<and> sortOrder (handleSortOrderChange v st) = v
   \<and> minPrice (handleMinPriceChange v st) = v
   \<and> maxPrice (handleMaxPriceChange v st) = v
   \<and> map_of (fetch_params (handleSearchChange v st)) ''page'' = Some (PNum 1)"
  by (simp add: handleSearchChange_def handleCategoryChange_def handleSortChange_def
      handleSortOrderChange_def handleMinPriceChange_def handleMaxPriceChange_def
      fetch_params_def)

text \<open>
  C7. Once the loading line is gone, the pagination block is rendered exactly when
  \<open>lastPage > 1\<close>; in a rendered block, Previous is disabled exactly when the current page
  is 1 and Next exactly when the current page is the last page.
\<close>

theorem pagination_controls:
  "\<not> loading st \<Longrightarrow>
     (pagination st \<noteq> None) = (1 < lastPage st)
     \<and> (\<forall>v. pagination st = Some v \<longrightarrow>
           previous_disabled v = (currentPage st = 1)
           \<and> next_disabled v = (currentPage st = lastPage st))"
  by (auto simp: pagination_def)

theorem pagination_controls_witness:
  "\<not> loading sample_dashboard
   \<and> (\<exists>v. pagination sample_dashboard = Some v \<and> previous_disabled v \<and> \<not> next_disabled v)
   \<and> pagination (sample_dashboard\<lparr>lastPage := 1\<rparr>) = None"
  using pagination_controls [of sample_dashboard]
    pagination_controls [of "sample_dashboard\<lparr>lastPage := 1\<rparr>"]
  by (auto simp: sample_dashboard_def)

lemma fetch_params_keys:
  "map_of (fetch_params st) ''page'' = Some (PNum (currentPage st))"
  "map_of (fetch_params st) ''per_page'' = Some (PNum 12)"
  "map_of (fetch_params st) ''search'' =
     (if search st = [] then None else Some (PStr (search st)))"
  "map_of (fetch_params st) ''category'' =
     (if category st = [] then None else Some (PStr (category st)))"
  "map_of (fetch_params st) ''sort_by'' =
     (if sortBy st = [] then None else Some (PStr (sortBy st)))"
  "map_of (fetch_params st) ''sort_order'' =
     (if sortOrder st = [] then None else Some (PStr (sortOrder st)))"
  "map_of (fetch_params st) ''min_price'' =
     (if minPrice st = [] then None else Some (PStr (minPrice st)))"
  "map_of (fetch_params st) ''max_price'' =
     (if maxPrice st = [] then None else Some (PStr (maxPrice st)))"
  by (simp_all add: fetch_params_def map_add_def)

lemma fetch_params_no_empty: "(k, PStr []) \<notin> set (fetch_params st)"
  by (simp add: fetch_params_def)

lemma fetch_params_distinct: "distinct (map fst (fetch_params st))"
  by (simp add: fetch_params_def)

lemma fetchProducts_request:
  "\<exists>rest. snd (fetchProducts result st) =
     HttpGet ''http://localhost:8000/api/products'' (fetch_params st) # rest"
  by (simp add: fetchProducts_def Let_def split: sum.splits)

text \<open>
  C8. Whatever the filter, sort and page state and whatever the request's outcome, the
  first effect of \<open>fetchProducts\<close> is the GET for the products with the parameter list of
  the state. That list holds \<open>page\<close> (the current page) and \<open>per_page\<close> (12); it holds
  each of \<open>search\<close>, \<open>category\<close>, \<open>sort_by\<close>, \<open>sort_order\<close>, \<open>min_price\<close> and \<open>max_price\<close>
  exactly when the state's value is not empty, with that value; no key is bound to the
  empty string, and no key occurs twice.
\<close>

theorem products_request_params:
  "(\<exists>rest. snd (fetchProducts result st) =
      HttpGet ''http://localhost:8000/api/products'' (fetch_params st) # rest)
   \<and> map_of (fetch_params st) ''page'' = Some (PNum (currentPage st))
   \<and> map_of (fetch_params st) ''per_page'' = Some (PNum 12)
   \<and> map_of (fetch_params st) ''search'' =
       (if search st = [] then None else Some (PStr (search st)))
   \<and> map_of (fetch_params st) ''category'' =
       (if category st = [] then None else Some (PStr (category st)))
   \<and> map_of (fetch_params st) ''sort_by'' =
       (if sortBy st = [] then None else Some (PStr (sortBy st)))
   \<and> map_of (fetch_params st) ''sort_order'' =
       (if sortOrder st = [] then None else Some (PStr (sortOrder st)))
   \<and> map_of (fetch_params st) ''min_price'' =
       (if minPrice st = [] then None else Some (PStr (minPrice st)))
   \<and> map_of (fetch_params st) ''max_price'' =
       (if maxPrice st = [] then None else Some (PStr (maxPrice st)))
   \<and> (\<forall>k. map_of (fetch_params st) k \<noteq> Some (PStr []))
   \<and> distinct (map fst (fetch_params st))"
proof -
  have "map_of (fetch_params st) k \<noteq> Some (PStr [])" for k
    using fetch_params_no_empty [of k st] by (auto dest: map_of_SomeD)
  then show ?thesis
    using fetchProducts_request [of result st] fetch_params_keys [of st]
      fetch_params_distinct [of st]
    by simp
qed

text \<open>
  C9. When the products request fails, \<open>fetchProducts\<close> leaves the state it started from
  with only two changes: \<open>error\<close> is "Failed to fetch products", which the page shows, and
  \<open>loading\<close> is off. The products held, the current page, the last page and the total
  are those from before.
\<close>

theorem fetch_failure_keeps_list:
  "fetchProducts (Inl err) st =
     (st\<lparr>loading := False, error := ''Failed to fetch products''\<rparr>,
      [HttpGet ''http://localhost:8000/api/products'' (fetch_params st), ConsoleError err])
   \<and> error_message (fst (fetchProducts (Inl err) st)) = Some ''Failed to fetch products''
   \<and> \<not> loading (fst (fetchProducts (Inl err) st))
   \<and> products (fst (fetchProducts (Inl err) st)) = products st
   \<and> currentPage (fst (fetchProducts (Inl err) st)) = currentPage st
   \<and> lastPage (fst (fetchProducts (Inl err) st)) = lastPage st
   \<and> total (fst (fetchProducts (Inl err) st)) = total st"
  by (simp add: fetchProducts_def Let_def error_message_def)

section \<open>Product detail: image URL\<close>

text \<open>
  Two facts about \<open>replace_first\<close>: where the first occurrence of the pattern starts
  after a prefix \<open>a\<close>, the prefix and what follows the pattern are kept around the
  replacement; a string without the pattern is returned unchanged.
\<close>

lemma replace_first_at:
  "\<forall>i<length a. take (length pat) (drop i (a @ pat @ b)) \<noteq> pat \<Longrightarrow>
     replace_first pat rep (a @ pat @ b) = a @ rep @ b"
proof (induction a)
  case Nil
  show ?case
  proof (cases "pat @ b")
    case Nil
    then show ?thesis by simp
  next
    case (Cons c cs)
    have "take (length pat) (pat @ b) = pat" and "drop (length pat) (pat @ b) = b"
      by simp_all
    then have "replace_first pat rep (c # cs) = rep @ b"
      unfolding Cons by simp
    then show ?thesis by (simp add: Cons)
  qed
next
  case (Cons x a)
  from Cons.prems have here: "take (length pat) (x # a @ pat @ b) \<noteq> pat"
    by (metis append_Cons drop0 length_greater_0_conv list.distinct(1))
  have later: "\<forall>i<length a. take (length pat) (drop i (a @ pat @ b)) \<noteq> pat"
  proof (intro allI impI)
    fix i assume "i < length a"
    then have "Suc i < length (x # a)" by simp
    with Cons.prems have "take (length pat) (drop (Suc i) ((x # a) @ pat @ b)) \<noteq> pat"
      by blast
    then show "take (length pat) (drop i (a @ pat @ b)) \<noteq> pat" by simp
  qed
  from here Cons.IH [OF later] show ?case by simp
qed

lemma replace_first_absent:
  "\<forall>i\<le>length s. take (length pat) (drop i s) \<noteq> pat \<Longrightarrow> replace_first pat rep s = s"
proof (induction s)
  case Nil
  then show ?case by auto
next
  case (Cons x s)
  from Cons.prems have here: "take (length pat) (x # s) \<noteq> pat"
    by (metis drop0 le0)
  have later: "\<forall>i\<le>length s. take (length pat) (drop i s) \<noteq> pat"
  proof (intro allI impI)
    fix i assume "i \<le> length s"
    then have "Suc i \<le> length (x # s)" by simp
    with Cons.prems have "take (length pat) (drop (Suc i) (x # s)) \<noteq> pat" by blast
    then show "take (length pat) (drop i s) \<noteq> pat" by simp
  qed
  from here Cons.IH [OF later] show ?case by simp
qed

lemma strip_api_suffix_append: "strip_api_suffix (a @ ''/api'') = a"
  by (simp add: strip_api_suffix_def)

text \<open>
  The image URL field wins whenever it is a non-empty string, and the placeholder is
  used when neither field is; on these two branches the base URL plays no part.
\<close>

lemma getImageUrl_precedence:
  "getImageUrl env (Some ''https://x/y.png'') (Some ''abc.png'') = ''https://x/y.png''
   \<and> getImageUrl env None None = ''https://via.placeholder.com/600x400?text=No+Image''
   \<and> (truthy imageUrl \<longrightarrow> getImageUrl env imageUrl imagePath = or_else imageUrl [])
   \<and> (\<not> truthy imageUrl \<and> \<not> truthy imagePath \<longrightarrow>
        getImageUrl env imageUrl imagePath =
          ''https://via.placeholder.com/600x400?text=No+Image'')"
  by (cases imageUrl; cases imagePath) (simp_all add: getImageUrl_def)

text \<open>
  Where the configured base URL ends in \<open>/api\<close>, has something before it and holds
  \<open>/api\<close> nowhere earlier, \<open>getImageUrl\<close> is the rule of the specification.
\<close>

lemma getImageUrl_meets_spec_on_single_suffix:
  assumes first: "\<forall>i<length a. take 4 (drop i (a @ ''/api'')) \<noteq> ''/api''"
    and nonempty: "a \<noteq> []"
  shows "getImageUrl (Some (a @ ''/api'')) imageUrl imagePath =
         getImageUrl_spec (a @ ''/api'') imageUrl imagePath"
proof -
  have len: "length ''/api'' = 4"
    by simp
  from first
  have "\<forall>i<length a. take (length ''/api'') (drop i (a @ ''/api'' @ [])) \<noteq> ''/api''"
    by (simp only: len append_Nil2)
  then have "replace_first ''/api'' [] (a @ ''/api'' @ []) = a @ [] @ []"
    by (rule replace_first_at)
  with nonempty have "storage_base_url (Some (a @ ''/api'')) = a"
    by (simp add: storage_base_url_def)
  then show ?thesis
    by (cases imageUrl; cases imagePath)
       (simp_all add: getImageUrl_def getImageUrl_spec_def strip_api_suffix_append)
qed

text \<open>
  C2. The image URL field is used when present and the placeholder when neither field
  is, as stated. For a stored path the base is not the configured URL without its
  trailing \<open>/api\<close>: \<open>replace\<close> removes the first \<open>/api\<close> it meets. With the base URL
  \<open>https://api.example.com/api\<close> and the stored path \<open>abc.png\<close> the page builds
  \<open>https:/.example.com/api/storage/abc.png\<close>, where stripping the suffix gives
  \<open>https://api.example.com/storage/abc.png\<close>. With \<open>http://localhost:8000/api\<close> both
  give the URL that the Dashboard builds for the same path.
\<close>

theorem getImageUrl_removes_first_api:
  "getImageUrl (Some ''https://api.example.com/api'') None (Some ''abc.png'') =
     ''https:/.example.com/api/storage/abc.png''
   \<and> getImageUrl_spec ''https://api.example.com/api'' None (Some ''abc.png'') =
     ''https://api.example.com/storage/abc.png''
   \<and> getImageUrl (Some ''http://localhost:8000/api'') None (Some ''abc.png'') =
     ''http://localhost:8000/storage/abc.png''
   \<and> getImageUrl_dashboard (Some ''abc.png'') = ''http://localhost:8000/storage/abc.png''"
  by (simp add: getImageUrl_def getImageUrl_spec_def storage_base_url_def
      strip_api_suffix_def getImageUrl_dashboard_def)

section \<open>Product detail: delete\<close>

text \<open>
  C3. When the prompt is declined, \<open>handleDelete\<close> does nothing but ask: no DELETE
  request, the state as it was. When it is confirmed, exactly one DELETE request for the
  product is issued; if it succeeds the handler navigates to \<open>/dashboard\<close> and leaves the
  state alone; if it fails the handler does not navigate and only sets the error to
  "Failed to delete product", which a rendered page then shows in its banner, the rest
  of the page as before.
\<close>

theorem delete_gate:
  "handleDelete pid False result st =
     (st, [WindowConfirm ''Are you sure you want to delete this product?''])
   \<and> handleDelete pid True (Inr u) st =
     (st, [WindowConfirm ''Are you sure you want to delete this product?'',
           HttpDelete (''/products/'' @ pid), NavigateTo ''/dashboard''])
   \<and> handleDelete pid True (Inl err) st =
     (st\<lparr>pd_error := ''Failed to delete product''\<rparr>,
      [WindowConfirm ''Are you sure you want to delete this product?'',
       HttpDelete (''/products/'' @ pid), ConsoleError err])
   \<and> filter is_delete (snd (handleDelete pid False result st)) = []
   \<and> filter is_delete (snd (handleDelete pid True result st)) =
       [HttpDelete (''/products/'' @ pid)]
   \<and> filter is_navigation (snd (handleDelete pid True (Inl err) st)) = []
   \<and> (render env st = PageView v \<longrightarrow>
        render env (fst (handleDelete pid True (Inl err) st))
          = PageView (v\<lparr>error_banner := Some ''Failed to delete product''\<rparr>))"
  by (cases result)
     (auto simp: handleDelete_def render_def edit_preview_def split: option.splits if_splits)

theorem delete_gate_witness:
  "render None sample_viewing =
     PageView \<lparr>action_buttons = True, error_banner = None,
               page_body = ViewMode ''https://x/y.png''\<rparr>
   \<and> render None (fst (handleDelete ''7'' True (Inl sample_error) sample_viewing)) =
     PageView \<lparr>action_buttons = True, error_banner = Some ''Failed to delete product'',
               page_body = ViewMode ''https://x/y.png''\<rparr>"
proof -
  let ?v = "\<lparr>action_buttons = True, error_banner = None,
             page_body = ViewMode ''https://x/y.png''\<rparr>"
  have r: "render None sample_viewing = PageView ?v"
    by (simp add: render_def sample_viewing_def sample_editing_def sample_product_def
        getImageUrl_def)
  from delete_gate [of "''7''" _ sample_viewing _ sample_error None ?v]
  have "render None sample_viewing = PageView ?v \<longrightarrow>
        render None (fst (handleDelete ''7'' True (Inl sample_error) sample_viewing))
          = PageView (?v\<lparr>error_banner := Some ''Failed to delete product''\<rparr>)"
    by blast
  with r show ?thesis by simp
qed

section \<open>Product detail: saving an edit\<close>

lemma fetchProduct_keeps_edit_fields:
  "isEditing (fst (fetchProduct toStr pid g st)) = isEditing st
   \<and> imageFile (fst (fetchProduct toStr pid g st)) = imageFile st
   \<and> imagePreview (fst (fetchProduct toStr pid g st)) = imagePreview st"
  by (simp add: fetchProduct_def Let_def split: sum.splits)

lemma fetchProduct_request:
  "\<exists>rest. snd (fetchProduct toStr pid g st) = HttpGet (''/products/'' @ pid) [] # rest"
  by (simp add: fetchProduct_def Let_def split: sum.splits)

text \<open>
  C4. When the POST of the edit form succeeds, \<open>handleUpdate\<close> first reaches the state
  \<open>update_succeeded\<close>: the current product is the returned one (taken out of
  \<open>{ data: product }\<close> when wrapped, taken as it is otherwise), edit mode is off, and the
  chosen file and its preview are cleared. From that state it runs \<open>fetchProduct\<close>: the
  effects are the POST, then the GET of the product, and the final state is the one
  the re-fetch leaves. There edit mode is still off and file and preview still cleared;
  the product is the re-fetched one, or the returned one if the re-fetch failed.
\<close>

theorem update_success_adopts_and_refetches:
  "handleUpdate toStr pid (Inr body) get_result st =
     (fst (fetchProduct toStr pid get_result (update_succeeded body st)),
      update_request pid st # snd (fetchProduct toStr pid get_result (update_succeeded body st)))
   \<and> product (update_succeeded body st) = Some (unwrap body)
   \<and> unwrap (Wrapped p) = p \<and> unwrap (Unwrapped p) = p
   \<and> \<not> isEditing (update_succeeded body st)
   \<and> imageFile (update_succeeded body st) = None
   \<and> imagePreview (update_succeeded body st) = None
   \<and> (\<exists>rest. snd (handleUpdate toStr pid (Inr body) get_result st) =
         update_request pid st # HttpGet (''/products/'' @ pid) [] # rest)
   \<and> \<not> isEditing (fst (handleUpdate toStr pid (Inr body) get_result st))
   \<and> imageFile (fst (handleUpdate toStr pid (Inr body) get_result st)) = None
   \<and> imagePreview (fst (handleUpdate toStr pid (Inr body) get_result st)) = None
   \<and> product (fst (handleUpdate toStr pid (Inr body) get_result st)) =
       Some (case get_result of Inr fetched \<Rightarrow> unwrap fetched | Inl e \<Rightarrow> unwrap body)"
proof -
  let ?s = "update_succeeded body st"
  have h: "handleUpdate toStr pid (Inr body) get_result st =
     (fst (fetchProduct toStr pid get_result ?s),
      update_request pid st # snd (fetchProduct toStr pid get_result ?s))"
    by (simp add: handleUpdate_def split: prod.splits)
  have s: "product ?s = Some (unwrap body)" "\<not> isEditing ?s" "imageFile ?s = None"
    "imagePreview ?s = None"
    by (simp_all add: update_succeeded_def)
  have p: "product (fst (fetchProduct toStr pid get_result ?s)) =
       Some (case get_result of Inr fetched \<Rightarrow> unwrap fetched | Inl e \<Rightarrow> unwrap body)"
    by (simp add: fetchProduct_def Let_def update_succeeded_def split: sum.splits)
  show ?thesis
    using h s p fetchProduct_keeps_edit_fields [of toStr pid get_result ?s]
      fetchProduct_request [of toStr pid get_result ?s]
    by auto
qed

text \<open>
  C5. When the POST of the edit form fails, \<open>handleUpdate\<close> changes the error and nothing
  else: the error is the message of the backend's response when that is a non-empty
  string and "Failed to update product" otherwise; edit mode, the current product, the
  draft, the chosen file and its preview are as before, and no re-fetch is issued. A
  rendered page is rendered as before but for its banner, which shows that error.
\<close>

theorem update_failure_keeps_draft:
  "handleUpdate toStr pid (Inl err) get_result st =
     (st\<lparr>pd_error := or_else (response_data_message err) ''Failed to update product''\<rparr>,
      [update_request pid st, ConsoleError err])
   \<and> pd_error (fst (handleUpdate toStr pid (Inl err) get_result st)) =
       (case response_data_message err of
          Some m \<Rightarrow> if m \<noteq> [] then m else ''Failed to update product''
        | None \<Rightarrow> ''Failed to update product'')
   \<and> isEditing (fst (handleUpdate toStr pid (Inl err) get_result st)) = isEditing st
   \<and> product (fst (handleUpdate toStr pid (Inl err) get_result st)) = product st
   \<and> formData (fst (handleUpdate toStr pid (Inl err) get_result st)) = formData st
   \<and> imageFile (fst (handleUpdate toStr pid (Inl err) get_result st)) = imageFile st
   \<and> imagePreview (fst (handleUpdate toStr pid (Inl err) get_result st)) = imagePreview st
   \<and> (render env st = PageView v \<longrightarrow>
        render env (fst (handleUpdate toStr pid (Inl err) get_result st)) =
          PageView (v\<lparr>error_banner :=
            Some (or_else (response_data_message err) ''Failed to update product'')\<rparr>))"
  by (cases "response_data_message err")
     (auto simp: handleUpdate_def render_def edit_preview_def split: option.splits if_splits)

theorem update_failure_keeps_draft_witness:
  "render None (fst (handleUpdate id ''7'' (Inl sample_error) (Inl sample_error) sample_editing)) =
     PageView \<lparr>action_buttons = False, error_banner = Some ''The name field is required.'',
               page_body = EditMode None\<rparr>
   \<and> render None (fst (handleUpdate id ''7'' (Inl \<lparr>response = None\<rparr>) (Inl sample_error)
        sample_editing)) =
     PageView \<lparr>action_buttons = False, error_banner = Some ''Failed to update product'',
               page_body = EditMode None\<rparr>"
proof -
  let ?v = "\<lparr>action_buttons = False, error_banner = None, page_body = EditMode None\<rparr>"
  have r: "render None sample_editing = PageView ?v"
    by (simp add: render_def sample_editing_def sample_product_def edit_preview_def)
  have m: "or_else (response_data_message sample_error) ''Failed to update product'' =
      ''The name field is required.''"
    "or_else (response_data_message \<lparr>response = None\<rparr>) ''Failed to update product'' =
      ''Failed to update product''"
    by (simp_all add: response_data_message_def sample_error_def)
  have a: "render None sample_editing = PageView ?v \<longrightarrow>
      render None (fst (handleUpdate id ''7'' (Inl sample_error) (Inl sample_error)
        sample_editing)) =
      PageView (?v\<lparr>error_banner :=
        Some (or_else (response_data_message sample_error) ''Failed to update product'')\<rparr>)"
    using update_failure_keeps_draft
      [of id "''7''" sample_error "Inl sample_error" sample_editing None ?v]
    by blast
  have b: "render None sample_editing = PageView ?v \<longrightarrow>
      render None (fst (handleUpdate id ''7'' (Inl \<lparr>response = None\<rparr>) (Inl sample_error)
        sample_editing)) =
      PageView (?v\<lparr>error_banner :=
        Some (or_else (response_data_message \<lparr>response = None\<rparr>)
          ''Failed to update product'')\<rparr>)"
    using update_failure_keeps_draft
      [of id "''7''" "\<lparr>response = None\<rparr>" "Inl sample_error" sample_editing None ?v]
    by blast
  from a b r show ?thesis
    by (simp add: m)
qed

section \<open>Product detail: preview in edit mode\<close>

text \<open>
  C10, as worded, fails. "No replacement file chosen" is \<open>imageFile\<close> being \<open>null\<close>, and
  the preview block looks at \<open>imagePreview\<close>. After choose, Cancel, the reader's late
  \<open>onloadend\<close> and Edit, the page is in edit mode with no file chosen and a product
  without stored path, and the form still shows a preview: the data URL of the
  abandoned file.
\<close>

theorem stale_preview_without_file:
  "imageFile sample_stale_preview = None
   \<and> isEditing sample_stale_preview
   \<and> product sample_stale_preview = Some sample_product
   \<and> \<not> truthy (p_image sample_product)
   \<and> render None sample_stale_preview =
       PageView \<lparr>action_buttons = False, error_banner = None,
                 page_body = EditMode (Some ''data:image/png;base64,iVBORw0KGgo='')\<rparr>"
  by (simp add: sample_stale_preview_def edit_clicked_def reader_onloadend_def
      cancel_clicked_def handleImageChange_def sample_editing_def sample_product_def
      render_def edit_preview_def)

text \<open>
  C10, amended. In edit mode, while no preview data URL is held (\<open>imagePreview\<close> is
  \<open>null\<close>, whether or not a file is chosen), the form shows a preview image exactly when
  the product's stored path \<open>image\<close> is a non-empty string. So a product that has only
  the absolute \<open>image_url\<close> gets no preview in the form, while the view mode of the same
  page shows that URL.
\<close>

theorem edit_preview_needs_stored_path:
  "imagePreview st = None \<Longrightarrow> \<not> pd_loading st \<Longrightarrow> product st = Some p \<Longrightarrow> isEditing st \<Longrightarrow>
     (\<exists>v src. render env st = PageView v \<and> page_body v = EditMode src
        \<and> (src \<noteq> None) = truthy (p_image p))
     \<and> (truthy (p_image_url p) \<and> \<not> truthy (p_image p) \<longrightarrow>
          (\<exists>v. render env st = PageView v \<and> page_body v = EditMode None)
          \<and> (\<exists>v u. render env (st\<lparr>isEditing := False\<rparr>) = PageView v
                \<and> page_body v = ViewMode u \<and> p_image_url p = Some u))"
  by (cases "p_image_url p")
     (auto simp: render_def edit_preview_def getImageUrl_def)

theorem edit_preview_needs_stored_path_witness:
  "(\<exists>v. render None sample_editing = PageView v \<and> page_body v = EditMode None)
   \<and> (\<exists>v. render None (sample_editing\<lparr>isEditing := False\<rparr>) = PageView v
         \<and> page_body v = ViewMode ''https://x/y.png'')
   \<and> imageFile (handleImageChange (Some ()) sample_editing) = Some ()
   \<and> (\<exists>v. render None (handleImageChange (Some ()) sample_editing) = PageView v
         \<and> page_body v = EditMode None)"
proof -
  let ?chosen = "handleImageChange (Some ()) sample_editing"
  have state: "imagePreview sample_editing = None" "\<not> pd_loading sample_editing"
    "product sample_editing = Some sample_product" "isEditing sample_editing"
    by (simp_all add: sample_editing_def)
  have chosen: "imagePreview ?chosen = None" "\<not> pd_loading ?chosen"
    "product ?chosen = Some sample_product" "isEditing ?chosen"
    "imageFile ?chosen = Some ()"
    by (simp_all add: handleImageChange_def sample_editing_def)
  have fields: "truthy (p_image_url sample_product)" "\<not> truthy (p_image sample_product)"
    "p_image_url sample_product = Some ''https://x/y.png''"
    by (simp_all add: sample_product_def)
  from edit_preview_needs_stored_path [OF state, of None]
    edit_preview_needs_stored_path [OF chosen(1-4), of None] fields chosen(5)
  show ?thesis
    by auto
qed

end
